theory Spec2Isabelle
  imports Complex_Main "HOL-Library.Char_ord" "HOL-Library.List_Lexorder"
begin

section \<open>CloudWatch Log Insights query executor\<close>

text \<open>
  A shallow embedding of \<^verbatim>\<open>query_cloudwatch_logs.py\<close>
  (class \<^verbatim>\<open>CloudWatchLogsQueryExecutor\<close>). Python strings are modelled as
  \<open>string\<close>, Python integers as \<open>int\<close>, exceptions and \<^verbatim>\<open>sys.exit\<close> as values
  of the type \<open>error\<close>, and everything printed as a list of output events.
\<close>

subsection \<open>Strings\<close>

text \<open>\<^verbatim>\<open>s.startswith(p)\<close>\<close>

fun startswith :: "string \<Rightarrow> string \<Rightarrow> bool" where
  "startswith s [] = True"
| "startswith [] (p # ps) = False"
| "startswith (c # cs) (p # ps) = (c = p \<and> startswith cs ps)"

text \<open>\<^verbatim>\<open>sub in s\<close> for two strings\<close>

fun str_contains :: "string \<Rightarrow> string \<Rightarrow> bool" where
  "str_contains [] sub = (sub = [])"
| "str_contains (c # cs) sub = (startswith (c # cs) sub \<or> str_contains cs sub)"

text \<open>\<^verbatim>\<open>str(n)\<close> for an integer: decimal digits, a minus sign when negative.\<close>

definition digit_char :: "nat \<Rightarrow> char" where
  "digit_char d = ''0123456789'' ! d"

definition hex_digit :: "nat \<Rightarrow> char" where
  "hex_digit d = ''0123456789abcdef'' ! d"

function str_nat :: "nat \<Rightarrow> string" where
  "str_nat n = (if n < 10 then [digit_char n] else str_nat (n div 10) @ [digit_char (n mod 10)])"
  by pat_completeness auto
termination
  by (relation "measure id") auto

declare str_nat.simps [simp del]

function str_pos :: "int \<Rightarrow> string" where
  "str_pos i = (if i < 10 then [digit_char (nat i)]
                else str_pos (i div 10) @ [digit_char (nat (i mod 10))])"
  by pat_completeness auto
termination
  by (relation "measure nat") auto

declare str_pos.simps [simp del]

definition str_int :: "int \<Rightarrow> string" where
  "str_int i = (if i < 0 then CHR ''-'' # str_pos (- i) else str_pos i)"

text \<open>
  \<^verbatim>\<open>repr(s)\<close> for a string of characters up to code point 255: between single quotes,
  or between double quotes when the string holds a single quote and no double quote; the
  backslash and the quote in use are escaped, tab, line feed and carriage return are
  written by letter, and the other characters that are not printable (below space, from
  127 to 160, and 173) as \<^verbatim>\<open>\xhh\<close>.
\<close>

definition repr_char :: "char \<Rightarrow> char \<Rightarrow> string" where
  "repr_char quote c =
     (let n = (of_char c :: nat) in
      if c = quote \<or> c = CHR 0x5C then [CHR 0x5C, c]
      else if c = CHR 0x09 then [CHR 0x5C, CHR ''t'']
      else if c = CHR 0x0A then [CHR 0x5C, CHR ''n'']
      else if c = CHR 0x0D then [CHR 0x5C, CHR ''r'']
      else if n < 32 \<or> (127 \<le> n \<and> n \<le> 160) \<or> n = 173
        then [CHR 0x5C, CHR ''x'', hex_digit (n div 16), hex_digit (n mod 16)]
      else [c])"

definition py_repr :: "string \<Rightarrow> string" where
  "py_repr s =
     (let quote = (if CHR 0x27 \<in> set s \<and> CHR 0x22 \<notin> set s then CHR 0x22 else CHR 0x27)
      in [quote] @ concat (map (repr_char quote) s) @ [quote])"

subsection \<open>Exceptions\<close>

text \<open>
  An exception raised by the AWS client: the text \<^verbatim>\<open>str(e)\<close> and the error code
  \<^verbatim>\<open>e.response['Error']['Code']\<close> (empty when the exception has none).
\<close>

record client_exn =
  exn_text :: string
  exn_code :: string

datatype error =
    ValueError string
  | IndexError
  | OverflowError
  | LogGroupNotFoundError string
  | QuerySyntaxError string
  | CloudWatchQueryError string
  | ClientException client_exn
  | SystemExit int

subsection \<open>Characters and numbers of a time expression\<close>

text \<open>
  The string methods that \<^verbatim>\<open>parse_time\<close> uses, on characters up to code point 255:
  \<^verbatim>\<open>strip\<close> removes white space at both ends, \<^verbatim>\<open>lower\<close> maps capital letters to
  small ones, \<^verbatim>\<open>isdigit\<close> holds for a non-empty string of digits, among which Python
  counts the superscripts one, two and three.
\<close>

definition py_isspace :: "char \<Rightarrow> bool" where
  "py_isspace c = ((of_char c :: nat) \<in> set [9, 10, 11, 12, 13, 28, 29, 30, 31, 32, 133, 160])"

definition strip :: "string \<Rightarrow> string" where
  "strip s = rev (dropWhile py_isspace (rev (dropWhile py_isspace s)))"

definition lower_char :: "char \<Rightarrow> char" where
  "lower_char c =
     (let n = (of_char c :: nat) in
      if (65 \<le> n \<and> n \<le> 90) \<or> (192 \<le> n \<and> n \<le> 222 \<and> n \<noteq> 215) then char_of (n + 32) else c)"

definition lower :: "string \<Rightarrow> string" where
  "lower s = map lower_char s"

definition is_ascii_digit :: "char \<Rightarrow> bool" where
  "is_ascii_digit c = (48 \<le> (of_char c :: nat) \<and> (of_char c :: nat) \<le> 57)"

definition isdigit :: "string \<Rightarrow> bool" where
  "isdigit s = (s \<noteq> [] \<and> list_all (\<lambda>c. is_ascii_digit c \<or> (of_char c :: nat) \<in> set [178, 179, 185]) s)"

definition int_of_digits :: "string \<Rightarrow> int" where
  "int_of_digits s = foldl (\<lambda>a c. 10 * a + ((of_char c :: int) - 48)) 0 s"

text \<open>A non-empty string of ASCII digits, read as a number.\<close>

definition num :: "string \<Rightarrow> int option" where
  "num s = (if s \<noteq> [] \<and> list_all is_ascii_digit s then Some (int_of_digits s) else None)"

text \<open>
  \<^verbatim>\<open>int(s)\<close> for a string: white space at both ends is dropped, a sign may come first,
  and single underscores may stand between digits. \<open>None\<close> is \<^verbatim>\<open>ValueError\<close>. The
  white space of \<^verbatim>\<open>int\<close> is narrower than that of \<^verbatim>\<open>strip\<close>: the separators 28
  to 31 are not part of it. (The limit that recent Python versions put on the number of
  digits is not modelled.)
\<close>

definition int_isspace :: "char \<Rightarrow> bool" where
  "int_isspace c = ((of_char c :: nat) \<in> set [9, 10, 11, 12, 13, 32, 133, 160])"

fun underscores_ok :: "string \<Rightarrow> bool" where
  "underscores_ok [] = True"
| "underscores_ok [c] = is_ascii_digit c"
| "underscores_ok (c # d # cs) =
     (if c = CHR ''_'' then is_ascii_digit d \<and> underscores_ok (d # cs)
      else is_ascii_digit c \<and> underscores_ok (d # cs))"

definition py_int :: "string \<Rightarrow> int option" where
  "py_int s =
     (let t = rev (dropWhile int_isspace (rev (dropWhile int_isspace s)));
          negative = (t \<noteq> [] \<and> hd t = CHR ''-'');
          body = (if t \<noteq> [] \<and> (hd t = CHR ''-'' \<or> hd t = CHR ''+'') then tl t else t)
      in if body \<noteq> [] \<and> is_ascii_digit (hd body) \<and> underscores_ok body
         then (let n = int_of_digits (filter (\<lambda>c. c \<noteq> CHR ''_'') body)
               in Some (if negative then - n else n))
         else None)"

text \<open>\<^verbatim>\<open>s.split(sep)\<close> for a separator of one character.\<close>

fun split_on :: "char \<Rightarrow> string \<Rightarrow> string list" where
  "split_on sep [] = [[]]"
| "split_on sep (c # cs) =
     (if c = sep then [] # split_on sep cs
      else (case split_on sep cs of p # ps \<Rightarrow> (c # p) # ps | [] \<Rightarrow> [[c]]))"

subsection \<open>Dates and times\<close>

text \<open>
  A \<^verbatim>\<open>datetime\<close> is kept as the microseconds between 1970-01-01T00:00:00 and its own
  wall-clock reading, with the offset of its time zone in microseconds when it has one
  (an aware datetime) and \<open>None\<close> when it has none (a naive datetime). The calendar
  is the one of the module \<^verbatim>\<open>datetime\<close>: years 1 to 9999, day 1 is 0001-01-01 and
  day 719163 is 1970-01-01.
\<close>

record datetime =
  wall_us :: int
  tz_us :: "int option"

definition is_leap :: "int \<Rightarrow> bool" where
  "is_leap y = (y mod 4 = 0 \<and> (y mod 100 \<noteq> 0 \<or> y mod 400 = 0))"

definition days_in_month :: "int \<Rightarrow> int \<Rightarrow> int" where
  "days_in_month y m =
     (if m = 2 then (if is_leap y then 29 else 28)
      else [31, 28, 31, 30, 31, 30, 31, 31, 30, 31, 30, 31] ! nat (m - 1))"

definition days_before_year :: "int \<Rightarrow> int" where
  "days_before_year y = (let p = y - 1 in p * 365 + p div 4 - p div 100 + p div 400)"

definition days_before_month :: "int \<Rightarrow> int \<Rightarrow> int" where
  "days_before_month y m =
     [0, 31, 59, 90, 120, 151, 181, 212, 243, 273, 304, 334] ! nat (m - 1)
     + (if m > 2 \<and> is_leap y then 1 else 0)"

definition ymd2ord :: "int \<Rightarrow> int \<Rightarrow> int \<Rightarrow> int" where
  "ymd2ord y m d = days_before_year y + days_before_month y m + d"

text \<open>
  The constructor \<^verbatim>\<open>datetime(year, month, day, hour, minute, second, microsecond,
  tzinfo)\<close>; \<open>None\<close> is the \<^verbatim>\<open>ValueError\<close> of a component out of range. The offset of
  a time zone must lie strictly between minus and plus 24 hours.
\<close>

definition make_datetime ::
  "int \<Rightarrow> int \<Rightarrow> int \<Rightarrow> int \<Rightarrow> int \<Rightarrow> int \<Rightarrow> int \<Rightarrow> int option \<Rightarrow> datetime option" where
  "make_datetime y m d hh mm ss us tz =
     (if 1 \<le> y \<and> y \<le> 9999 \<and> 1 \<le> m \<and> m \<le> 12 \<and> 1 \<le> d \<and> d \<le> days_in_month y m
         \<and> 0 \<le> hh \<and> hh \<le> 23 \<and> 0 \<le> mm \<and> mm \<le> 59 \<and> 0 \<le> ss \<and> ss \<le> 59
         \<and> 0 \<le> us \<and> us \<le> 999999
         \<and> (case tz of None \<Rightarrow> True | Some off \<Rightarrow> - 86400000000 < off \<and> off < 86400000000)
      then Some \<lparr> wall_us =
                    ((ymd2ord y m d - 719163) * 86400 + hh * 3600 + mm * 60 + ss) * 1000000 + us,
                  tz_us = tz \<rparr>
      else None)"

text \<open>
  \<^verbatim>\<open>int(dt.timestamp() * 1000)\<close>. An aware datetime is counted from the epoch in UTC; a
  naive one is taken as local time, \<open>utcoffset\<close> being the offset of the local time
  zone in seconds east of UTC (a zone with one fixed offset; the platform's failures at
  the ends of the calendar are not modelled). \<^verbatim>\<open>int\<close> rounds towards zero. The
  arithmetic is exact here; Python computes in binary floating point, with the same
  result when the datetime has whole seconds, and a result that can be one millisecond
  less when it has a fraction of a second.
\<close>

definition timestamp_us :: "int \<Rightarrow> datetime \<Rightarrow> int" where
  "timestamp_us utcoffset dt =
     wall_us dt - (case tz_us dt of None \<Rightarrow> utcoffset * 1000000 | Some off \<Rightarrow> off)"

definition trunc_div :: "int \<Rightarrow> int \<Rightarrow> int" where
  "trunc_div a b = (if a < 0 then - ((- a) div b) else a div b)"

definition timestamp_ms :: "int \<Rightarrow> datetime \<Rightarrow> int" where
  "timestamp_ms utcoffset dt = trunc_div (timestamp_us utcoffset dt) 1000"

text \<open>
  \<^verbatim>\<open>datetime.now()\<close>: the naive local reading of the clock, \<open>now\<close> being the
  microseconds since the epoch.
\<close>

definition datetime_now :: "int \<Rightarrow> int \<Rightarrow> datetime" where
  "datetime_now utcoffset now = \<lparr> wall_us = now + utcoffset * 1000000, tz_us = None \<rparr>"

text \<open>
  \<^verbatim>\<open>timedelta(seconds=n)\<close> raises \<^verbatim>\<open>OverflowError\<close> beyond 999999999 days either
  way, and \<^verbatim>\<open>dt - delta\<close> raises it when the result leaves the years 1 to 9999.
\<close>

definition timedelta_seconds :: "int \<Rightarrow> error + int" where
  "timedelta_seconds n =
     (if \<bar>n div 86400\<bar> > 999999999 then Inl OverflowError else Inr (n * 1000000))"

definition datetime_sub :: "datetime \<Rightarrow> int \<Rightarrow> error + datetime" where
  "datetime_sub dt delta_us =
     (let w = wall_us dt - delta_us
      in if - 719162 * 86400000000 \<le> w \<and> w < (3652059 - 719162) * 86400000000
         then Inr (dt\<lparr> wall_us := w \<rparr>) else Inl OverflowError)"

text \<open>\<^verbatim>\<open>dt.replace(hour=0, minute=0, second=0, microsecond=0)\<close>\<close>

definition start_of_day :: "datetime \<Rightarrow> datetime" where
  "start_of_day dt = dt\<lparr> wall_us := (wall_us dt div 86400000000) * 86400000000 \<rparr>"

subsection \<open>datetime.fromisoformat\<close>

text \<open>
  The format that the library documents for Python 3.7 to 3.10,
  \<^verbatim>\<open>YYYY-MM-DD[*HH[:MM[:SS[.fff[fff]]]][+HH:MM[:SS[.ffffff]]]]\<close> with any single
  character for \<^verbatim>\<open>*\<close>. Later versions accept these strings too, with the same
  result, and others as well (dates without hyphens, a zone written \<^verbatim>\<open>+HHMM\<close>,
  fractions of other lengths), which are refused here. \<open>None\<close> is \<^verbatim>\<open>ValueError\<close>.
\<close>

definition hh_mm_ss_ff :: "nat list \<Rightarrow> string \<Rightarrow> (int \<times> int \<times> int \<times> int) option" where
  "hh_mm_ss_ff lengths s =
     (let n = length s in
      if n \<notin> set lengths then None
      else if (n \<ge> 5 \<and> s ! 2 \<noteq> CHR '':'') \<or> (n \<ge> 8 \<and> s ! 5 \<noteq> CHR '':'')
              \<or> (n \<ge> 12 \<and> s ! 8 \<noteq> CHR ''.'') then None
      else
        (case (num (take 2 s),
               if n \<ge> 5 then num (take 2 (drop 3 s)) else Some 0,
               if n \<ge> 8 then num (take 2 (drop 6 s)) else Some 0,
               if n = 12 then map_option (\<lambda>f. f * 1000) (num (drop 9 s))
               else if n = 15 then num (drop 9 s) else Some 0) of
           (Some hh, Some mm, Some ss, Some us) \<Rightarrow> Some (hh, mm, ss, us)
         | _ \<Rightarrow> None))"

definition is_sign :: "char \<Rightarrow> bool" where
  "is_sign c = (c = CHR ''+'' \<or> c = CHR ''-'')"

definition fromisoformat :: "string \<Rightarrow> datetime option" where
  "fromisoformat s =
     (if length s < 10 \<or> length s = 11 then None
      else if s ! 4 \<noteq> CHR ''-'' \<or> s ! 7 \<noteq> CHR ''-'' then None
      else
        (case (num (take 4 s), num (take 2 (drop 5 s)), num (take 2 (drop 8 s))) of
           (Some y, Some m, Some d) \<Rightarrow>
             (if length s = 10 then make_datetime y m d 0 0 0 0 None
              else
                (let tstr = drop 11 s;
                     time_part = takeWhile (\<lambda>c. \<not> is_sign c) tstr;
                     tz_part = dropWhile (\<lambda>c. \<not> is_sign c) tstr
                 in case hh_mm_ss_ff [2, 5, 8, 12, 15] time_part of
                      None \<Rightarrow> None
                    | Some (hh, mm, ss, us) \<Rightarrow>
                        (if tz_part = [] then make_datetime y m d hh mm ss us None
                         else
                           (case hh_mm_ss_ff [5, 8, 15] (tl tz_part) of
                              None \<Rightarrow> None
                            | Some (th, tm, ts, tus) \<Rightarrow>
                                (let off = (th * 3600 + tm * 60 + ts) * 1000000 + tus
                                 in make_datetime y m d hh mm ss us
                                      (Some (if hd tz_part = CHR ''-'' then - off else off)))))))
         | _ \<Rightarrow> None))"

subsection \<open>datetime.strptime\<close>

text \<open>
  The two formats that \<^verbatim>\<open>parse_time\<close> uses. \<^verbatim>\<open>%Y\<close> is four digits; the other
  fields are one or two digits in the range of the field (a day may also be a space and
  a digit, a second may be 60 or 61, which the constructor then refuses); the letter
  between date and time matches in either case. \<open>None\<close> is \<^verbatim>\<open>ValueError\<close>.
\<close>

definition strptime_field :: "int \<Rightarrow> int \<Rightarrow> string \<Rightarrow> int option" where
  "strptime_field lo hi s =
     (if length s \<le> 2 then
        (case num s of
           Some n \<Rightarrow> if lo \<le> n \<and> n \<le> hi then Some n else None
         | None \<Rightarrow> None)
      else None)"

definition strptime_day :: "string \<Rightarrow> int option" where
  "strptime_day s =
     (case s of
        [sp, c] \<Rightarrow> if sp = CHR '' '' \<and> is_ascii_digit c \<and> c \<noteq> CHR ''0'' then num [c]
                   else strptime_field 1 31 s
      | _ \<Rightarrow> strptime_field 1 31 s)"

definition strptime_year :: "string \<Rightarrow> int option" where
  "strptime_year s = (if length s = 4 then num s else None)"

definition strptime_date_fields :: "string \<Rightarrow> (int \<times> int \<times> int) option" where
  "strptime_date_fields s =
     (case split_on CHR ''-'' s of
        [ys, ms, ds] \<Rightarrow>
          (case (strptime_year ys, strptime_field 1 12 ms, strptime_day ds) of
             (Some y, Some m, Some d) \<Rightarrow> Some (y, m, d)
           | _ \<Rightarrow> None)
      | _ \<Rightarrow> None)"

text \<open>\<^verbatim>\<open>datetime.strptime(s, "%Y-%m-%d")\<close>\<close>

definition strptime_date :: "string \<Rightarrow> datetime option" where
  "strptime_date s =
     (case strptime_date_fields s of
        Some (y, m, d) \<Rightarrow> make_datetime y m d 0 0 0 0 None
      | None \<Rightarrow> None)"

text \<open>\<^verbatim>\<open>datetime.strptime(s, "%Y-%m-%dT%H:%M:%S")\<close>\<close>

definition strptime_datetime :: "string \<Rightarrow> datetime option" where
  "strptime_datetime s =
     (let date_part = takeWhile (\<lambda>c. c \<noteq> CHR ''T'' \<and> c \<noteq> CHR ''t'') s;
          rest = dropWhile (\<lambda>c. c \<noteq> CHR ''T'' \<and> c \<noteq> CHR ''t'') s
      in if rest = [] then None
         else
           (case (strptime_date_fields date_part, split_on CHR '':'' (tl rest)) of
              (Some (y, m, d), [hs, ms, ss]) \<Rightarrow>
                (case (strptime_field 0 23 hs, strptime_field 0 59 ms, strptime_field 0 61 ss) of
                   (Some hh, Some mm, Some sec) \<Rightarrow> make_datetime y m d hh mm sec 0 None
                 | _ \<Rightarrow> None)
            | _ \<Rightarrow> None))"

subsection \<open>parse_time\<close>

definition unable_to_parse :: "string \<Rightarrow> string" where
  "unable_to_parse time_str =
     ''Unable to parse time format: '' @ time_str @ [CHR 0x0A] @
     ''Supported formats: ISO 8601, Unix ms, relative (1h, 2d), named (last-hour, now)''"

text \<open>The seconds of the named ranges that are a distance from now.\<close>

definition named_ranges :: "(string \<times> int) list" where
  "named_ranges =
     [(''last-hour'', 3600), (''last-24h'', 86400), (''last-day'', 86400),
      (''last-week'', 604800), (''yesterday'', 86400), (''today'', 0)]"

definition unit_seconds :: "char \<Rightarrow> int" where
  "unit_seconds unit =
     (if unit = CHR ''s'' then 1 else if unit = CHR ''m'' then 60
      else if unit = CHR ''h'' then 3600 else 86400)"

text \<open>\<^verbatim>\<open>int((datetime.now() - delta).timestamp() * 1000)\<close> for a delta of \<open>n\<close> seconds\<close>

definition now_minus :: "int \<Rightarrow> int \<Rightarrow> int \<Rightarrow> error + int" where
  "now_minus utcoffset now n =
     (case timedelta_seconds n of
        Inl e \<Rightarrow> Inl e
      | Inr delta \<Rightarrow>
          (case datetime_sub (datetime_now utcoffset now) delta of
             Inl e \<Rightarrow> Inl e
           | Inr dt \<Rightarrow> Inr (timestamp_ms utcoffset dt)))"

text \<open>
  The formats after the relative one: a string of 13 digits, then
  \<^verbatim>\<open>fromisoformat\<close> with every \<^verbatim>\<open>Z\<close> replaced by \<^verbatim>\<open>+00:00\<close>, then the two
  \<^verbatim>\<open>strptime\<close> formats, then the \<^verbatim>\<open>ValueError\<close> that names the formats. The
  \<^verbatim>\<open>int\<close> of the 13 digits is outside every \<^verbatim>\<open>try\<close>.
\<close>

definition parse_absolute :: "int \<Rightarrow> string \<Rightarrow> error + int" where
  "parse_absolute utcoffset time_str =
     (if isdigit time_str \<and> length time_str = 13 then
        (case py_int time_str of
           Some n \<Rightarrow> Inr n
         | None \<Rightarrow> Inl (ValueError (''invalid literal for int() with base 10: ''
                          @ py_repr time_str)))
      else
        (case fromisoformat (concat (map (\<lambda>c. if c = CHR ''Z'' then ''+00:00'' else [c]) time_str)) of
           Some dt \<Rightarrow> Inr (timestamp_ms utcoffset dt)
         | None \<Rightarrow>
             (case strptime_datetime time_str of
                Some dt \<Rightarrow> Inr (timestamp_ms utcoffset dt)
              | None \<Rightarrow>
                  (case strptime_date time_str of
                     Some dt \<Rightarrow> Inr (timestamp_ms utcoffset dt)
                   | None \<Rightarrow> Inl (ValueError (unable_to_parse time_str))))))"

text \<open>
  \<^verbatim>\<open>parse_time\<close>, for the local time zone \<open>utcoffset\<close> and the clock reading
  \<open>now\<close> that \<^verbatim>\<open>datetime.now()\<close> gives during the call. \<^verbatim>\<open>time_str[-1]\<close> raises
  \<^verbatim>\<open>IndexError\<close> on the empty string; in the relative format only the
  \<^verbatim>\<open>ValueError\<close> of \<^verbatim>\<open>int\<close> is caught.
\<close>

definition parse_time :: "int \<Rightarrow> int \<Rightarrow> string \<Rightarrow> error + int" where
  "parse_time utcoffset now time_str0 =
     (let time_str = strip time_str0 in
      if lower time_str = ''now'' then Inr (timestamp_ms utcoffset (datetime_now utcoffset now))
      else if lower time_str \<in> set (map fst named_ranges) then
        (if lower time_str = ''today''
           then Inr (timestamp_ms utcoffset (start_of_day (datetime_now utcoffset now)))
         else if lower time_str = ''yesterday''
           then (case datetime_sub (datetime_now utcoffset now) 86400000000 of
                   Inl e \<Rightarrow> Inl e
                 | Inr dt \<Rightarrow> Inr (timestamp_ms utcoffset (start_of_day dt)))
         else now_minus utcoffset now (the (map_of named_ranges (lower time_str))))
      else if time_str = [] then Inl IndexError
      else if last time_str \<in> set ''hdms'' then
        (case py_int (butlast time_str) of
           Some n \<Rightarrow> now_minus utcoffset now (n * unit_seconds (last time_str))
         | None \<Rightarrow> parse_absolute utcoffset time_str)
      else parse_absolute utcoffset time_str)"

subsection \<open>The AWS Logs client\<close>

text \<open>
  The two catalogue lookups of \<^verbatim>\<open>validate_log_groups\<close>:
  \<^verbatim>\<open>get_paginator('describe_log_groups').paginate(logGroupNamePrefix=prefix)\<close>, which
  yields pages of log group names or raises, and
  \<^verbatim>\<open>describe_log_groups(logGroupNamePrefix=prefix, limit=n)\<close>, which returns the
  names of the response's \<^verbatim>\<open>logGroups\<close> or raises. The catalogue does not change
  while one list of patterns is validated. The third call is
  \<^verbatim>\<open>start_query(logGroupNames, startTime, endTime, queryString, limit)\<close>, which returns
  the \<^verbatim>\<open>queryId\<close> or raises.
\<close>

record logs_client =
  paginate_describe_log_groups :: "string \<Rightarrow> client_exn + string list list"
  describe_log_groups :: "string \<Rightarrow> nat \<Rightarrow> client_exn + string list"
  start_query :: "string list \<Rightarrow> int \<Rightarrow> int \<Rightarrow> string \<Rightarrow> int \<Rightarrow> client_exn + string"

subsection \<open>validate_log_groups\<close>

definition not_found_marker :: string where
  "not_found_marker = ''ResourceNotFoundException''"

text \<open>
  The body of \<^verbatim>\<open>for log_group_pattern in log_groups\<close>, with the list
  \<^verbatim>\<open>validated_groups\<close> as accumulator. In the wildcard branch the
  \<^verbatim>\<open>LogGroupNotFoundError\<close> raised inside the \<^verbatim>\<open>try\<close> is caught by its own
  \<^verbatim>\<open>except Exception\<close> clause, which inspects its text like any other.
\<close>

fun validate_loop :: "logs_client \<Rightarrow> string list \<Rightarrow> string list \<Rightarrow> error + string list" where
  "validate_loop c [] validated_groups = Inr validated_groups"
| "validate_loop c (log_group_pattern # rest) validated_groups =
     (if CHR ''*'' \<in> set log_group_pattern then
        (let prefix = filter (\<lambda>ch. ch \<noteq> CHR ''*'') log_group_pattern in
         case paginate_describe_log_groups c prefix of
           Inl e \<Rightarrow>
             if str_contains (exn_text e) not_found_marker
             then Inl (LogGroupNotFoundError (''Log group not found: '' @ log_group_pattern))
             else Inl (ClientException e)
         | Inr pages \<Rightarrow>
             (let validated_groups' = validated_groups @ concat pages in
              if validated_groups' = [] then
                (let msg = ''No log groups found matching pattern: '' @ log_group_pattern in
                 if str_contains msg not_found_marker
                 then Inl (LogGroupNotFoundError (''Log group not found: '' @ log_group_pattern))
                 else Inl (LogGroupNotFoundError msg))
              else validate_loop c rest validated_groups'))
      else
        (case describe_log_groups c log_group_pattern 1 of
           Inl e \<Rightarrow>
             if str_contains (exn_text e) not_found_marker
             then Inl (LogGroupNotFoundError
                    (''Log group not found: '' @ log_group_pattern @ [CHR 0x0A] @
                     ''Please verify the log group exists and you have permissions to access it.''))
             else Inl (ClientException e)
         | Inr response \<Rightarrow> validate_loop c rest (validated_groups @ [log_group_pattern])))"

definition truncation_warning :: "nat \<Rightarrow> string" where
  "truncation_warning n =
     ''WARNING: CloudWatch limits queries to 20 log groups. Using first 20 of '' @
     str_nat n @ '' groups.''"

text \<open>
  \<^verbatim>\<open>validate_log_groups\<close>: the result or the exception, and the lines written to
  standard error.
\<close>

definition validate_log_groups :: "logs_client \<Rightarrow> string list \<Rightarrow> (error + string list) \<times> string list" where
  "validate_log_groups c log_groups =
     (case validate_loop c log_groups [] of
        Inl e \<Rightarrow> (Inl e, [])
      | Inr validated_groups \<Rightarrow>
          if length validated_groups > 20
          then (Inr (take 20 validated_groups), [truncation_warning (length validated_groups)])
          else (Inr validated_groups, []))"


text \<open>
  What one pattern contributes to \<^verbatim>\<open>validated_groups\<close> when its lookup succeeds:
  every name of every page for a wildcard pattern, the pattern itself otherwise.
\<close>

definition expansion :: "logs_client \<Rightarrow> string \<Rightarrow> string list" where
  "expansion c p =
     (if CHR ''*'' \<in> set p
      then (case paginate_describe_log_groups c (filter (\<lambda>ch. ch \<noteq> CHR ''*'') p) of
              Inl e \<Rightarrow> [] | Inr pages \<Rightarrow> concat pages)
      else [p])"

subsection \<open>Result rows\<close>

text \<open>
  One field of a result, \<^verbatim>\<open>{'field': name, 'value': text}\<close>: the name, which the
  service always sends, and the value, which \<^verbatim>\<open>field.get('value', '')\<close> allows to be
  missing. A result is the list of its fields; \<^verbatim>\<open>results\<close> is a list of results.
  A character of a field name or value stands for its code point; code points above
  255 are outside the model.
\<close>

type_synonym result_field = "string \<times> string option"

text \<open>
  A Python \<^verbatim>\<open>dict\<close> keeps its keys in insertion order; storing under a key that is
  already there replaces the value and leaves the key where it is.
\<close>

type_synonym py_dict = "(string \<times> string) list"

fun dict_set :: "py_dict \<Rightarrow> string \<Rightarrow> string \<Rightarrow> py_dict" where
  "dict_set [] k v = [(k, v)]"
| "dict_set ((k', v') # d) k v =
     (if k' = k then (k, v) # d else (k', v') # dict_set d k v)"

text \<open>\<^verbatim>\<open>d.get(k, '')\<close>\<close>

definition dict_get :: "py_dict \<Rightarrow> string \<Rightarrow> string" where
  "dict_get d k = (case map_of d k of None \<Rightarrow> [] | Some v \<Rightarrow> v)"

text \<open>\<^verbatim>\<open>{field['field']: field.get('value', '') for field in result}\<close>\<close>

definition value_or_empty :: "string option \<Rightarrow> string" where
  "value_or_empty v = (case v of None \<Rightarrow> [] | Some s \<Rightarrow> s)"

definition row_dict :: "result_field list \<Rightarrow> py_dict" where
  "row_dict result = foldl (\<lambda>d f. dict_set d (fst f) (value_or_empty (snd f))) [] result"

subsection \<open>Query responses\<close>

text \<open>
  The response of \<^verbatim>\<open>get_query_results\<close>: the status, the statistics when the service
  sends them, and the results (the key \<^verbatim>\<open>results\<close>). Clock readings and the numbers of the statistics are
  modelled as rationals.
\<close>

record query_response =
  status :: string
  statistics :: "(string \<times> rat) list option"
  query_results :: "result_field list list"

subsection \<open>Output\<close>

text \<open>
  What a call prints or writes, in order: the argument of a \<^verbatim>\<open>print\<close> to standard
  output or to standard error, the whole text written to a file, and a call
  \<^verbatim>\<open>_print_status_update(response, elapsed)\<close>, whose lines (the status, the statistics
  and the completion message, with numbers formatted in floating point) are not
  spelled out; and a call of \<^verbatim>\<open>start_query\<close> with its arguments. The two marks of the program's messages, U+2713 and U+2717, are written
  as their UTF-8 bytes.
\<close>

datatype event =
    Stdout string
  | Stderr string
  | FileWrite string string
  | StatusUpdate query_response rat
  | StartQueryCall "string list" int int string int

definition check_mark :: string where
  "check_mark = [CHR 0xE2, CHR 0x9C, CHR 0x93]"

definition cross_mark :: string where
  "cross_mark = [CHR 0xE2, CHR 0x9C, CHR 0x97]"

definition saved_message :: "string \<Rightarrow> string" where
  "saved_message path = check_mark @ '' Results saved to: '' @ path"

text \<open>\<^verbatim>\<open>sep.join(xs)\<close>\<close>

fun join :: "string \<Rightarrow> string list \<Rightarrow> string" where
  "join sep [] = []"
| "join sep [x] = x"
| "join sep (x # y # ys) = x @ sep @ join sep (y # ys)"

text \<open>\<^verbatim>\<open>if output_file:\<close> holds for a path that is neither \<^verbatim>\<open>None\<close> nor empty.\<close>

fun truthy :: "string option \<Rightarrow> bool" where
  "truthy None = False"
| "truthy (Some s) = (s \<noteq> [])"

text \<open>
  The common end of the three formatters: write the text to the file and report it, or
  print it.
\<close>

definition emit :: "string \<Rightarrow> string option \<Rightarrow> string option \<times> event list" where
  "emit text output_file =
     (if truthy output_file
      then (output_file, [FileWrite (the output_file) text, Stdout (saved_message (the output_file))])
      else (None, [Stdout text]))"

subsection \<open>json.dumps(rows, indent=2)\<close>

text \<open>
  The encoder of the standard library with \<^verbatim>\<open>ensure_ascii\<close> left on: a character from
  space to tilde stands for itself, except the quote and the backslash; the others are
  written as escapes.
\<close>

definition json_escape_char :: "char \<Rightarrow> string" where
  "json_escape_char c =
     (if c = CHR 0x22 then [CHR 0x5C, CHR 0x22]
      else if c = CHR 0x5C then [CHR 0x5C, CHR 0x5C]
      else if c = CHR 0x08 then [CHR 0x5C, CHR ''b'']
      else if c = CHR 0x0C then [CHR 0x5C, CHR ''f'']
      else if c = CHR 0x0A then [CHR 0x5C, CHR ''n'']
      else if c = CHR 0x0D then [CHR 0x5C, CHR ''r'']
      else if c = CHR 0x09 then [CHR 0x5C, CHR ''t'']
      else if 32 \<le> (of_char c :: nat) \<and> (of_char c :: nat) \<le> 126 then [c]
      else [CHR 0x5C, CHR ''u'', CHR ''0'', CHR ''0'',
            hex_digit (of_char c div 16), hex_digit (of_char c mod 16)])"

definition json_string :: "string \<Rightarrow> string" where
  "json_string s = [CHR 0x22] @ concat (map json_escape_char s) @ [CHR 0x22]"

definition json_member :: "string \<times> string \<Rightarrow> string" where
  "json_member kv = ''    '' @ json_string (fst kv) @ '': '' @ json_string (snd kv)"

definition json_object :: "py_dict \<Rightarrow> string" where
  "json_object d =
     (if d = [] then ''{}''
      else [CHR ''{'', CHR 0x0A] @ join [CHR '','', CHR 0x0A] (map json_member d)
           @ [CHR 0x0A] @ ''  }'')"

definition json_dumps :: "py_dict list \<Rightarrow> string" where
  "json_dumps rows =
     (if rows = [] then ''[]''
      else [CHR ''['', CHR 0x0A] @ join [CHR '','', CHR 0x0A] (map (\<lambda>d. ''  '' @ json_object d) rows)
           @ [CHR 0x0A] @ '']'')"

definition format_json :: "py_dict list \<Rightarrow> string option \<Rightarrow> (error + string option) \<times> event list" where
  "format_json rows output_file =
     (let json_output = json_dumps rows;
          (r, evs) = emit json_output output_file
      in (Inr r, evs))"

subsection \<open>csv.DictWriter\<close>

text \<open>
  The writer of the standard library in its default dialect: fields separated by commas,
  a field quoted when it holds a comma, a quote, a carriage return or a line feed, quotes
  inside it doubled, lines ended by carriage return and line feed, and a record that
  would be empty (one empty field) written as two quotes.
\<close>

definition csv_field :: "string \<Rightarrow> string" where
  "csv_field s =
     (if \<exists>c \<in> set s. c = CHR '','' \<or> c = CHR 0x22 \<or> c = CHR 0x0D \<or> c = CHR 0x0A
      then [CHR 0x22] @ concat (map (\<lambda>c. if c = CHR 0x22 then [c, c] else [c]) s) @ [CHR 0x22]
      else s)"

definition csv_writerow :: "string list \<Rightarrow> string" where
  "csv_writerow cells =
     (if cells = [[]] then [CHR 0x22, CHR 0x22] else join '','' (map csv_field cells))
     @ [CHR 0x0D, CHR 0x0A]"

text \<open>
  \<^verbatim>\<open>DictWriter._dict_to_list\<close> with the defaults \<^verbatim>\<open>extrasaction='raise'\<close> and
  \<^verbatim>\<open>restval=''\<close>: a row with a key that is not a field name raises \<^verbatim>\<open>ValueError\<close>
  (the message lists the \<^verbatim>\<open>repr\<close> of the keys; Python takes them from a set, the model
  in the order of the row). \<^verbatim>\<open>writerows\<close> converts and writes the rows one by one, so the rows before
  the offending one are already written when it raises.
\<close>

definition dict_to_list :: "string list \<Rightarrow> py_dict \<Rightarrow> error + string list" where
  "dict_to_list fieldnames rowdict =
     (let wrong_fields = filter (\<lambda>k. k \<notin> set fieldnames) (map fst rowdict) in
      if wrong_fields \<noteq> []
      then Inl (ValueError (''dict contains fields not in fieldnames: ''
                  @ join '', '' (map py_repr wrong_fields)))
      else Inr (map (dict_get rowdict) fieldnames))"

fun writerows :: "string list \<Rightarrow> py_dict list \<Rightarrow> string \<Rightarrow> error option \<times> string" where
  "writerows fieldnames [] written = (None, written)"
| "writerows fieldnames (rowdict # rows) written =
     (case dict_to_list fieldnames rowdict of
        Inl e \<Rightarrow> (Some e, written)
      | Inr cells \<Rightarrow> writerows fieldnames rows (written @ csv_writerow cells))"

text \<open>
  \<^verbatim>\<open>_format_csv\<close>. When a row raises, nothing is printed; with an output file the file
  is left with what was written before.
\<close>

definition format_csv :: "py_dict list \<Rightarrow> string list \<Rightarrow> string option \<Rightarrow> (error + string option) \<times> event list" where
  "format_csv rows field_names output_file =
     (case writerows field_names rows (csv_writerow field_names) of
        (Some e, written) \<Rightarrow>
          (Inl e, if truthy output_file then [FileWrite (the output_file) written] else [])
      | (None, written) \<Rightarrow> (let (r, evs) = emit written output_file in (Inr r, evs)))"

subsection \<open>The table\<close>

text \<open>\<^verbatim>\<open>s.ljust(w)\<close>\<close>

definition ljust :: "string \<Rightarrow> nat \<Rightarrow> string" where
  "ljust s w = s @ replicate (w - length s) CHR '' ''"

definition column_width :: "py_dict list \<Rightarrow> string \<Rightarrow> nat" where
  "column_width rows field =
     min (foldl (\<lambda>w row. max w (length (dict_get row field))) (length field) rows) 50"

definition table_cell :: "py_dict list \<Rightarrow> py_dict \<Rightarrow> string \<Rightarrow> string" where
  "table_cell rows row field =
     (let v = dict_get row field;
          v' = (if length v > 50 then take 47 v @ ''...'' else v)
      in ljust v' (column_width rows field))"

definition format_table :: "py_dict list \<Rightarrow> string list \<Rightarrow> string option \<Rightarrow> (error + string option) \<times> event list" where
  "format_table rows field_names output_file =
     (if rows = [] then (Inr None, [])
      else
        (let header = join '' | '' (map (\<lambda>f. ljust f (column_width rows f)) field_names);
             separator = join ''-+-'' (map (\<lambda>f. replicate (column_width rows f) CHR ''-'') field_names);
             lines = header # separator # map (\<lambda>row. join '' | '' (map (table_cell rows row) field_names)) rows;
             table_output = join [CHR 0x0A] lines;
             (r, evs) = emit table_output output_file
         in (Inr r, evs)))"

subsection \<open>format_results\<close>

definition metadata_fields :: "string list" where
  "metadata_fields = [''@timestamp'', ''@message'', ''@logStream'', ''@log'']"

definition all_fields :: "result_field list list \<Rightarrow> string set" where
  "all_fields results = set (concat (map (map fst) results))"

text \<open>
  The column order: the metadata fields that occur, in their fixed order, then the other
  fields sorted (Python compares strings code point by code point, as the lexicographic
  order on \<open>string\<close> does); with \<^verbatim>\<open>exclude_metadata\<close> every name that starts with
  \<^verbatim>\<open>@\<close> is dropped.
\<close>

definition sorted_fields :: "result_field list list \<Rightarrow> bool \<Rightarrow> string list" where
  "sorted_fields results exclude_metadata =
     (let fs = filter (\<lambda>f. f \<in> all_fields results) metadata_fields
               @ sorted_list_of_set (Set.filter (\<lambda>f. f \<notin> set metadata_fields) (all_fields results))
      in if exclude_metadata then filter (\<lambda>f. \<not> startswith f ''@'') fs else fs)"

definition no_results_message :: string where
  "no_results_message = ''No results returned from query''"

definition format_results ::
  "result_field list list \<Rightarrow> string \<Rightarrow> string option \<Rightarrow> bool \<Rightarrow> (error + string option) \<times> event list" where
  "format_results results format output_file exclude_metadata =
     (if results = [] then (Inr None, [Stdout no_results_message])
      else if hd results = [] then (Inr None, [Stdout no_results_message])
      else
        (let field_names = sorted_fields results exclude_metadata;
             rows = map row_dict results
         in if format = ''json'' then format_json rows output_file
            else if format = ''csv'' then format_csv rows field_names output_file
            else if format = ''table'' then format_table rows field_names output_file
            else (Inl (ValueError (''Unsupported format: '' @ format)), [])))"

subsection \<open>execute_query\<close>

definition start_before_end :: "string \<Rightarrow> int \<Rightarrow> string \<Rightarrow> int \<Rightarrow> string" where
  "start_before_end start_time start_epoch end_time end_epoch =
     ''Start time must be before end time'' @ [CHR 0x0A]
     @ ''Start: '' @ start_time @ '' ('' @ str_int start_epoch @ '')'' @ [CHR 0x0A]
     @ ''End: '' @ end_time @ '' ('' @ str_int end_epoch @ '')''"

text \<open>\<^verbatim>\<open>except ValueError as e: raise QuerySyntaxError(str(e))\<close>; any other exception passes.\<close>

fun as_query_syntax_error :: "error \<Rightarrow> error" where
  "as_query_syntax_error (ValueError msg) = QuerySyntaxError msg"
| "as_query_syntax_error e = e"

text \<open>The handler around \<^verbatim>\<open>start_query\<close>: the exception it raises and what it prints.\<close>

definition start_query_failure :: "client_exn \<Rightarrow> error \<times> event list" where
  "start_query_failure e =
     (if str_contains (exn_text e) ''MalformedQueryException''
         \<or> str_contains (exn_code e) ''InvalidParameterException''
      then (QuerySyntaxError (''Invalid query syntax: '' @ exn_text e), [])
      else if str_contains (exn_code e) ''LimitExceededException''
      then (SystemExit 1,
            [Stderr (cross_mark @ '' API rate limit exceeded. Please wait and try again.'')])
      else (CloudWatchQueryError (''Query execution failed: '' @ exn_text e), []))"

text \<open>
  \<^verbatim>\<open>execute_query\<close>. \<open>now_start\<close> and \<open>now_end\<close> are the clock readings during the
  two calls of \<^verbatim>\<open>parse_time\<close>. The result is the query id or the exception, with the
  events of the call in order.
\<close>

definition execute_query ::
  "int \<Rightarrow> int \<Rightarrow> int \<Rightarrow> logs_client \<Rightarrow> string \<Rightarrow> string list \<Rightarrow> string \<Rightarrow> string \<Rightarrow> int
   \<Rightarrow> (error + string) \<times> event list" where
  "execute_query utcoffset now_start now_end c query log_groups start_time end_time limit =
     (case parse_time utcoffset now_start start_time of
        Inl e \<Rightarrow> (Inl (as_query_syntax_error e), [])
      | Inr start_epoch \<Rightarrow>
     (case parse_time utcoffset now_end end_time of
        Inl e \<Rightarrow> (Inl (as_query_syntax_error e), [])
      | Inr end_epoch \<Rightarrow>
     (if start_epoch \<ge> end_epoch
      then (Inl (QuerySyntaxError (start_before_end start_time start_epoch end_time end_epoch)), [])
      else
        (case validate_log_groups c log_groups of
           (Inl (LogGroupNotFoundError msg), warnings) \<Rightarrow>
             (Inl (SystemExit 1), map Stderr warnings @ [Stderr (cross_mark @ '' Error: '' @ msg)])
         | (Inl e, warnings) \<Rightarrow> (Inl e, map Stderr warnings)
         | (Inr validated_groups, warnings) \<Rightarrow>
             (let printed =
                    map Stderr warnings
                    @ [Stdout (''Executing query across '' @ str_nat (length validated_groups)
                               @ '' log group(s)...''),
                       Stdout (''Time range: '' @ start_time @ '' to '' @ end_time)]
                    @ (if length validated_groups \<le> 5
                       then map (\<lambda>g. Stdout (''  - '' @ g)) validated_groups else [])
                    @ [StartQueryCall validated_groups start_epoch end_epoch query limit]
              in case start_query c validated_groups start_epoch end_epoch query limit of
                   Inr query_id \<Rightarrow> (Inr query_id, printed @ [Stdout (''Query ID: '' @ query_id)])
                 | Inl e \<Rightarrow> (Inl (fst (start_query_failure e)),
                              printed @ snd (start_query_failure e)))))))"

subsection \<open>wait_for_results\<close>

definition is_terminal_state :: "string \<Rightarrow> bool" where
  "is_terminal_state s = (s \<in> set [''Complete'', ''Failed'', ''Cancelled'', ''Timeout''])"

text \<open>
  The \<^verbatim>\<open>while True\<close> loop. Each iteration reads the clock and calls
  \<^verbatim>\<open>get_query_results\<close> once; the list holds, per iteration, the clock reading and the
  response or the exception of that call. The loop has no bound of its own: when the
  list is used up before a terminal state or an exception, the loop is still polling,
  which is the result \<open>None\<close>. \<^verbatim>\<open>time.sleep(2)\<close> only lets time pass between two
  readings.
\<close>

fun wait_loop ::
  "rat \<Rightarrow> int \<Rightarrow> rat \<Rightarrow> (rat \<times> (client_exn + query_response)) list
   \<Rightarrow> (error + query_response) option \<times> event list" where
  "wait_loop start_time update_interval last_update_time [] = (None, [])"
| "wait_loop start_time update_interval last_update_time ((current_time, r) # polls) =
     (let elapsed = current_time - start_time in
      case r of
        Inl e \<Rightarrow>
          (Some (Inl (SystemExit 1)),
           [Stderr (cross_mark @ '' Error fetching query results: '' @ exn_text e)])
      | Inr response \<Rightarrow>
          (let should_update = (current_time - last_update_time \<ge> of_int update_interval);
               is_terminal = is_terminal_state (status response);
               updates = (if should_update \<or> is_terminal then [StatusUpdate response elapsed] else []);
               last_update_time' = (if should_update \<or> is_terminal then current_time else last_update_time)
           in if is_terminal then
                (if status response = ''Complete'' then (Some (Inr response), updates)
                 else if status response = ''Failed''
                   then (Some (Inl (SystemExit 1)), updates @ [Stderr (cross_mark @ '' Query failed'')])
                 else if status response = ''Cancelled''
                   then (Some (Inl (SystemExit 1)), updates @ [Stderr (cross_mark @ '' Query was cancelled'')])
                 else (Some (Inl (SystemExit 1)), updates @ [Stderr (cross_mark @ '' Query timed out'')]))
              else
                (let (res, evs) = wait_loop start_time update_interval last_update_time' polls
                 in (res, updates @ evs))))"

text \<open>
  \<^verbatim>\<open>wait_for_results\<close>: \<open>start_time\<close> is the first clock reading, which is also the
  first \<^verbatim>\<open>last_update_time\<close>.
\<close>

definition wait_for_results ::
  "rat \<Rightarrow> int \<Rightarrow> (rat \<times> (client_exn + query_response)) list
   \<Rightarrow> (error + query_response) option \<times> event list" where
  "wait_for_results start_time update_interval polls =
     (let (res, evs) = wait_loop start_time update_interval start_time polls
      in (res, Stdout ''Waiting for query to complete...'' # evs))"

text \<open>A status update printed for a response in a terminal state.\<close>

fun terminal_update :: "event \<Rightarrow> bool" where
  "terminal_update (StatusUpdate response elapsed) = is_terminal_state (status response)"
| "terminal_update e = False"

text \<open>A poll that answers with a response in a state that is not terminal.\<close>

fun still_running :: "rat \<times> (client_exn + query_response) \<Rightarrow> bool" where
  "still_running (t, Inr response) = (\<not> is_terminal_state (status response))"
| "still_running (t, Inl e) = False"

definition response_running :: query_response where
  "response_running = \<lparr> status = ''Running'', statistics = None, query_results = [] \<rparr>"

definition response_complete :: query_response where
  "response_complete =
     \<lparr> status = ''Complete'',
       statistics = Some [(''recordsScanned'', 120), (''recordsMatched'', 1), (''bytesScanned'', 4096)],
       query_results = [[(''@message'', Some ''hello'')]] \<rparr>"

subsection \<open>What the rows say\<close>

text \<open>
  Notions the properties below are stated with. \<open>dict_fill\<close> is the loop of the
  dictionary comprehension started from any dictionary; \<open>first_occurrences\<close> lists the
  elements of a list that are not in \<open>seen\<close>, each once, in the order they first occur;
  \<open>cell_text\<close> is the text of a field in a result: the value of the last field of that
  name, empty when the result has no such field or the field has no value.
\<close>

definition dict_fill :: "py_dict \<Rightarrow> result_field list \<Rightarrow> py_dict" where
  "dict_fill d result = foldl (\<lambda>d f. dict_set d (fst f) (value_or_empty (snd f))) d result"

fun first_occurrences :: "'a list \<Rightarrow> 'a list \<Rightarrow> 'a list" where
  "first_occurrences seen [] = []"
| "first_occurrences seen (x # xs) =
     (if x \<in> set seen then first_occurrences seen xs
      else x # first_occurrences (seen @ [x]) xs)"

definition cell_text :: "result_field list \<Rightarrow> string \<Rightarrow> string" where
  "cell_text result f = (case map_of (rev result) f of None \<Rightarrow> [] | Some v \<Rightarrow> value_or_empty v)"

text \<open>
  The CSV text the specification describes: the header line, then one line per result in
  the order of the results, each with one cell per header field.
\<close>

definition csv_text :: "string list \<Rightarrow> result_field list list \<Rightarrow> string" where
  "csv_text header results =
     csv_writerow header @ concat (map (\<lambda>r. csv_writerow (map (cell_text r) header)) results)"

subsection \<open>Example results\<close>

definition results_with_metadata :: "result_field list list" where
  "results_with_metadata = [[(''@timestamp'', Some ''t1''), (''level'', Some ''INFO'')]]"

definition results_b_a :: "result_field list list" where
  "results_b_a = [[(''b'', Some ''1''), (''a'', Some ''2'')]]"

definition results_sparse :: "result_field list list" where
  "results_sparse =
     [[(''A'', Some ''1''), (''B'', Some ''2'')],
      [(''B'', Some ''3''), (''C'', Some ''4'')],
      [(''A'', Some ''5'')]]"

subsection \<open>Example catalogues\<close>

text \<open>
  A catalogue holding the single log group \<^verbatim>\<open>/aws/lambda/a\<close>: listing by any other
  prefix returns normally with no log groups, as the paginated listing does.
\<close>

definition catalog_single :: logs_client where
  "catalog_single =
     \<lparr> paginate_describe_log_groups =
         (\<lambda>prefix. if startswith ''/aws/lambda/a'' prefix then Inr [[''/aws/lambda/a'']] else Inr [[]]),
       describe_log_groups =
         (\<lambda>prefix n. if startswith ''/aws/lambda/a'' prefix \<and> 0 < n then Inr [''/aws/lambda/a''] else Inr []),
       start_query = (\<lambda>names start_ms end_ms query limit. Inr ''query-1'') \<rparr>"

text \<open>A catalogue with 25 log groups under \<^verbatim>\<open>/aws/lambda/\<close>, listed in two pages.\<close>

definition lambda_names :: "string list" where
  "lambda_names = map (\<lambda>i. ''/aws/lambda/fn-'' @ str_nat i) [0..<25]"

definition catalog_25 :: logs_client where
  "catalog_25 =
     \<lparr> paginate_describe_log_groups =
         (\<lambda>prefix. if prefix = ''/aws/lambda/''
                   then Inr [take 10 lambda_names, drop 10 lambda_names] else Inr [[]]),
       describe_log_groups = (\<lambda>prefix n. Inr []),
       start_query = (\<lambda>names start_ms end_ms query limit. Inr ''query-1'') \<rparr>"

section \<open>Verified properties\<close>

subsection \<open>validate_log_groups\<close>

lemma startswith_append: "startswith (s @ b) s"
  by (induction s) simp_all

lemma str_contains_here: "str_contains (s @ b) s"
  using startswith_append [of s b] by (cases "s @ b") auto

lemma str_contains_append: "str_contains (a @ s @ b) s"
  by (induction a) (simp_all add: str_contains_here)

lemma expansion_wild:
  "CHR ''*'' \<in> set p \<Longrightarrow>
   paginate_describe_log_groups c (filter (\<lambda>ch. ch \<noteq> CHR ''*'') p) = Inr pages \<Longrightarrow>
   expansion c p = concat pages"
  by (simp add: expansion_def)

lemma expansion_literal: "CHR ''*'' \<notin> set p \<Longrightarrow> expansion c p = [p]"
  by (simp add: expansion_def)

lemma validate_loop_expansion:
  "validate_loop c ps acc = Inr names \<Longrightarrow> names = acc @ concat (map (expansion c) ps)"
proof (induction ps arbitrary: acc)
  case Nil
  then show ?case by simp
next
  case (Cons p ps)
  show ?case
  proof (cases "CHR ''*'' \<in> set p")
    case True
    with Cons.prems obtain pages where
      pg: "paginate_describe_log_groups c (filter (\<lambda>ch. ch \<noteq> CHR ''*'') p) = Inr pages"
      and rest: "validate_loop c ps (acc @ concat pages) = Inr names"
      by (simp add: Let_def split: sum.splits if_splits)
    from Cons.IH [OF rest] expansion_wild [OF True pg] show ?thesis by simp
  next
    case False
    with Cons.prems have rest: "validate_loop c ps (acc @ [p]) = Inr names"
      by (simp split: sum.splits if_splits)
    from Cons.IH [OF rest] expansion_literal [OF False] show ?thesis by simp
  qed
qed

text \<open>
  What the loop does with one pattern. A wildcard pattern whose listing is empty raises
  only while nothing has been collected; a literal pattern raises only when its lookup
  raises, and is appended whenever the lookup returns, whatever it returns.
\<close>

lemma wildcard_no_match_empty:
  assumes "CHR ''*'' \<in> set p"
    and "paginate_describe_log_groups c (filter (\<lambda>ch. ch \<noteq> CHR ''*'') p) = Inr pages"
    and "concat pages = []"
  shows "\<exists>msg. validate_loop c (p # rest) [] = Inl (LogGroupNotFoundError msg)"
  using assms(1,2) by (simp add: Let_def assms(3) del: concat_eq_Nil_conv)

lemma wildcard_no_match_skipped:
  assumes "CHR ''*'' \<in> set p"
    and "paginate_describe_log_groups c (filter (\<lambda>ch. ch \<noteq> CHR ''*'') p) = Inr pages"
    and "concat pages = []" and "acc \<noteq> []"
  shows "validate_loop c (p # rest) acc = validate_loop c rest acc"
  using assms(1,2,4) by (simp add: Let_def assms(3) del: concat_eq_Nil_conv)

lemma literal_lookup_raises:
  assumes "CHR ''*'' \<notin> set p" and "describe_log_groups c p 1 = Inl e"
    and "str_contains (exn_text e) not_found_marker"
  shows "\<exists>msg. validate_loop c (p # rest) acc = Inl (LogGroupNotFoundError msg)"
  using assms by simp

lemma literal_lookup_returns:
  assumes "CHR ''*'' \<notin> set p" and "describe_log_groups c p 1 = Inr response"
  shows "validate_loop c (p # rest) acc = validate_loop c rest (acc @ [p])"
  using assms by simp

text \<open>
  Claim C3. A wildcard pattern that matches no log group should make
  \<^verbatim>\<open>validate_log_groups\<close> fail with \<^verbatim>\<open>LogGroupNotFoundError\<close>, also after earlier
  patterns have contributed names. The code tests the shared accumulator
  \<^verbatim>\<open>validated_groups\<close>, not the matches of the pattern at hand: with the literal
  \<^verbatim>\<open>/aws/lambda/a\<close> first, the pattern \<^verbatim>\<open>/nomatch/*\<close>, whose listing is one empty page,
  raises nothing and the call returns normally; alone, the same pattern raises.
\<close>

theorem validate_wildcard_no_match_after_match:
  "validate_log_groups catalog_single [''/aws/lambda/a'', ''/nomatch/*'']
     = (Inr [''/aws/lambda/a''], [])
   \<and> expansion catalog_single ''/nomatch/*'' = []
   \<and> validate_log_groups catalog_single [''/nomatch/*'']
     = (Inl (LogGroupNotFoundError ''No log groups found matching pattern: /nomatch/*''), [])"
  by (simp add: validate_log_groups_def catalog_single_def expansion_def not_found_marker_def)

text \<open>
  Claim C4. A literal pattern that is not in the catalogue should make
  \<^verbatim>\<open>validate_log_groups\<close> fail with \<^verbatim>\<open>LogGroupNotFoundError\<close>. The code discards the
  response of \<^verbatim>\<open>describe_log_groups\<close>: when the lookup of \<^verbatim>\<open>/missing\<close> returns with
  no log groups, the name is appended and returned.
\<close>

theorem validate_literal_missing_passes_through:
  "describe_log_groups catalog_single ''/missing'' 1 = Inr []
   \<and> validate_log_groups catalog_single [''/missing''] = (Inr [''/missing''], [])"
  by (simp add: validate_log_groups_def catalog_single_def)

text \<open>
  Claim C7. When the patterns are all processed and their combined expansion \<open>names\<close>
  (the concatenation, in processing order, of what each pattern contributes) has more
  than 20 entries, \<^verbatim>\<open>validate_log_groups\<close> returns exactly its first 20 and writes one
  warning that cites the original count; with 20 or fewer it returns \<open>names\<close> unchanged
  and writes nothing.
\<close>

theorem validate_log_groups_cap:
  assumes "validate_loop c ps [] = Inr names"
  shows "names = concat (map (expansion c) ps)
       \<and> (20 < length names \<longrightarrow>
            validate_log_groups c ps
              = (Inr (take 20 names), [truncation_warning (length names)])
            \<and> length (take 20 names) = 20
            \<and> str_contains (truncation_warning (length names)) (str_nat (length names)))
       \<and> (length names \<le> 20 \<longrightarrow> validate_log_groups c ps = (Inr names, []))"
proof -
  have "names = concat (map (expansion c) ps)"
    using validate_loop_expansion [OF assms] by simp
  moreover have "str_contains (truncation_warning (length names)) (str_nat (length names))"
    unfolding truncation_warning_def by (rule str_contains_append)
  ultimately show ?thesis
    using assms by (simp add: validate_log_groups_def)
qed

theorem validate_log_groups_cap_witness:
  "validate_loop catalog_25 [''/aws/lambda/*''] [] = Inr lambda_names
   \<and> length lambda_names = 25
   \<and> validate_log_groups catalog_25 [''/aws/lambda/*'']
       = (Inr (take 20 lambda_names),
          [''WARNING: CloudWatch limits queries to 20 log groups. Using first 20 of 25 groups.''])"
proof -
  have loop: "validate_loop catalog_25 [''/aws/lambda/*''] [] = Inr lambda_names"
    by code_simp
  have len: "length lambda_names = 25"
    by (simp add: lambda_names_def)
  note cap = validate_log_groups_cap [OF loop, unfolded len]
  have warn: "truncation_warning 25
      = ''WARNING: CloudWatch limits queries to 20 log groups. Using first 20 of 25 groups.''"
    by code_simp
  from cap loop len warn show ?thesis by simp
qed

subsection \<open>format_results\<close>

lemma map_of_dict_set: "map_of (dict_set d k v) = (map_of d)(k \<mapsto> v)"
  by (induction d k v rule: dict_set.induct) auto

lemma keys_dict_set: "fst ` set (dict_set d k v) = insert k (fst ` set d)"
  by (induction d k v rule: dict_set.induct) auto

lemma keys_dict_set_list:
  "map fst (dict_set d k v) = (if k \<in> set (map fst d) then map fst d else map fst d @ [k])"
  by (induction d k v rule: dict_set.induct) auto

lemma distinct_dict_set: "distinct (map fst d) \<Longrightarrow> distinct (map fst (dict_set d k v))"
  by (simp add: keys_dict_set_list)

lemma dict_fill_simps:
  "dict_fill d [] = d"
  "dict_fill d (f # fs) = dict_fill (dict_set d (fst f) (value_or_empty (snd f))) fs"
  by (simp_all add: dict_fill_def)

lemma keys_dict_fill: "fst ` set (dict_fill d r) = fst ` set d \<union> fst ` set r"
  by (induction r arbitrary: d) (auto simp: dict_fill_simps keys_dict_set)

lemma distinct_dict_fill: "distinct (map fst d) \<Longrightarrow> distinct (map fst (dict_fill d r))"
  by (induction r arbitrary: d) (auto simp: dict_fill_simps distinct_dict_set)

lemma map_of_dict_fill:
  "map_of (dict_fill d r) = map_of d ++ map_of (rev (map (\<lambda>f. (fst f, value_or_empty (snd f))) r))"
  by (induction r arbitrary: d) (simp_all add: dict_fill_simps map_of_dict_set)

lemma keys_dict_fill_order:
  "map fst (dict_fill d r) = map fst d @ first_occurrences (map fst d) (map fst r)"
  by (induction r arbitrary: d) (auto simp: dict_fill_simps keys_dict_set_list)


lemma row_dict_fill: "row_dict r = dict_fill [] r"
  by (simp add: row_dict_def dict_fill_def)

lemma keys_row_dict: "fst ` set (row_dict r) = fst ` set r"
  by (simp add: row_dict_fill keys_dict_fill)

lemma keys_row_dict_order: "map fst (row_dict r) = first_occurrences [] (map fst r)"
  using keys_dict_fill_order [of "[]" r] by (simp add: row_dict_fill)

lemma map_of_map_values:
  "map_of (map (\<lambda>f. (fst f, g (snd f))) xs) k = map_option g (map_of xs k)"
  by (induction xs) auto

lemma dict_get_row_dict: "dict_get (row_dict r) f = cell_text r f"
proof -
  have "map_of (row_dict r) f
      = map_of (map (\<lambda>f. (fst f, value_or_empty (snd f))) (rev r)) f"
    by (simp add: row_dict_fill map_of_dict_fill rev_map)
  also have "\<dots> = map_option value_or_empty (map_of (rev r) f)"
    by (rule map_of_map_values)
  finally show ?thesis
    by (simp add: dict_get_def cell_text_def split: option.splits)
qed


lemma dict_to_list_row_dict:
  assumes "fst ` set r \<subseteq> set field_names"
  shows "dict_to_list field_names (row_dict r) = Inr (map (cell_text r) field_names)"
proof -
  have "filter (\<lambda>k. k \<notin> set field_names) (map fst (row_dict r)) = []"
    using assms keys_row_dict [of r] by (auto simp: filter_empty_conv)
  then show ?thesis
    by (simp add: dict_to_list_def dict_get_row_dict [abs_def])
qed

lemma writerows_row_dicts:
  assumes "\<forall>r \<in> set results. fst ` set r \<subseteq> set field_names"
  shows "writerows field_names (map row_dict results) written
       = (None, written @ concat (map (\<lambda>r. csv_writerow (map (cell_text r) field_names)) results))"
  using assms
proof (induction results arbitrary: written)
  case Nil
  then show ?case by simp
next
  case (Cons r results)
  then show ?case by (simp add: dict_to_list_row_dict)
qed

lemma finite_all_fields: "finite (all_fields results)"
  by (simp add: all_fields_def)

lemma sorted_fields_unmarked:
  assumes "\<forall>f \<in> all_fields results. f \<notin> set metadata_fields"
    and "exclude_metadata \<longrightarrow> (\<forall>f \<in> all_fields results. \<not> startswith f ''@'')"
  shows "sorted_fields results exclude_metadata = sorted_list_of_set (all_fields results)"
proof -
  have none: "filter (\<lambda>f. f \<in> all_fields results) metadata_fields = []"
    using assms(1) by (auto simp: filter_empty_conv)
  have rest: "Set.filter (\<lambda>f. f \<notin> set metadata_fields) (all_fields results) = all_fields results"
    using assms(1) by auto
  show ?thesis
  proof (cases exclude_metadata)
    case True
    with assms(2) finite_all_fields [of results]
    have keep: "filter (\<lambda>f. \<not> startswith f ''@'') (sorted_list_of_set (all_fields results))
              = sorted_list_of_set (all_fields results)"
      by (simp add: filter_id_conv)
    show ?thesis
      by (simp only: sorted_fields_def none rest keep Let_def append_Nil if_cancel)
  next
    case False
    then show ?thesis
      by (simp only: sorted_fields_def none rest Let_def append_Nil if_False)
  qed
qed


lemma all_fields_row: "r \<in> set results \<Longrightarrow> fst ` set r \<subseteq> all_fields results"
  by (auto simp: all_fields_def)

lemma cell_text_absent: "f \<notin> fst ` set r \<Longrightarrow> cell_text r f = []"
proof -
  assume "f \<notin> fst ` set r"
  then have "map_of (rev r) f = None"
    by (simp add: map_of_eq_None_iff)
  then show ?thesis by (simp add: cell_text_def)
qed

text \<open>
  Claim C8. For results without any of the four metadata fields (and, when
  \<^verbatim>\<open>exclude_metadata\<close> is set, without any field name that begins with \<^verbatim>\<open>@\<close>), that
  are not the degenerate case of no results or an empty first result, the CSV text is
  the header line, which lists all field names of all results in sorted order, followed
  by one line per result in the order of the results; no row is rejected, and a field
  that a result does not have is written as the empty string. The text is printed, or
  written to the output file when one is given.
\<close>

theorem csv_header_and_sparse_rows:
  assumes "results \<noteq> []" and "hd results \<noteq> []"
    and "\<forall>f \<in> all_fields results. f \<notin> set metadata_fields"
    and "exclude_metadata \<longrightarrow> (\<forall>f \<in> all_fields results. \<not> startswith f ''@'')"
  shows "sorted_fields results exclude_metadata = sorted_list_of_set (all_fields results)
       \<and> format_results results ''csv'' output_file exclude_metadata
           = (Inr (fst (emit (csv_text (sorted_list_of_set (all_fields results)) results) output_file)),
              snd (emit (csv_text (sorted_list_of_set (all_fields results)) results) output_file))
       \<and> (\<forall>r \<in> set results. \<forall>f. f \<notin> fst ` set r \<longrightarrow> cell_text r f = [])"
proof -
  let ?header = "sorted_list_of_set (all_fields results)"
  have schema: "sorted_fields results exclude_metadata = ?header"
    using assms(3,4) by (rule sorted_fields_unmarked)
  have "\<forall>r \<in> set results. fst ` set r \<subseteq> set ?header"
    using all_fields_row [of _ results] finite_all_fields [of results] by simp
  then have rows: "writerows ?header (map row_dict results) (csv_writerow ?header)
                 = (None, csv_text ?header results)"
    by (simp add: writerows_row_dicts csv_text_def)
  have "format_results results ''csv'' output_file exclude_metadata
          = format_csv (map row_dict results) ?header output_file"
    using assms(1,2) by (simp add: format_results_def schema)
  also have "\<dots> = (Inr (fst (emit (csv_text ?header results) output_file)),
                    snd (emit (csv_text ?header results) output_file))"
    by (simp add: format_csv_def rows split_beta)
  finally show ?thesis
    using schema cell_text_absent by blast
qed

theorem csv_header_and_sparse_rows_witness:
  "results_sparse \<noteq> [] \<and> hd results_sparse \<noteq> []
   \<and> all_fields results_sparse = {''A'', ''B'', ''C''}
   \<and> sorted_fields results_sparse False = [''A'', ''B'', ''C'']
   \<and> format_results results_sparse ''csv'' None False
       = (Inr None,
          [Stdout (''A,B,C'' @ [CHR 0x0D, CHR 0x0A] @ ''1,2,'' @ [CHR 0x0D, CHR 0x0A]
                   @ '',3,4'' @ [CHR 0x0D, CHR 0x0A] @ ''5,,'' @ [CHR 0x0D, CHR 0x0A])])"
proof -
  have h1: "results_sparse \<noteq> []" and h2: "hd results_sparse \<noteq> []"
    by (simp_all add: results_sparse_def)
  have names: "all_fields results_sparse = {''A'', ''B'', ''C''}"
    by (auto simp: all_fields_def results_sparse_def)
  have h3: "\<forall>f \<in> all_fields results_sparse. f \<notin> set metadata_fields"
    by (simp add: names metadata_fields_def)
  have h4: "False \<longrightarrow> (\<forall>f \<in> all_fields results_sparse. \<not> startswith f ''@'')"
    by simp
  have header: "sorted_list_of_set (all_fields results_sparse) = [''A'', ''B'', ''C'']"
    by code_simp
  have out: "emit (csv_text [''A'', ''B'', ''C''] results_sparse) None
      = (None, [Stdout (''A,B,C'' @ [CHR 0x0D, CHR 0x0A] @ ''1,2,'' @ [CHR 0x0D, CHR 0x0A]
                   @ '',3,4'' @ [CHR 0x0D, CHR 0x0A] @ ''5,,'' @ [CHR 0x0D, CHR 0x0A])])"
    by code_simp
  from csv_header_and_sparse_rows [OF h1 h2 h3 h4, of None] h1 h2 names
  show ?thesis by (simp add: header out)
qed

text \<open>
  Claim C5, as stated, fails on the code: \<^verbatim>\<open>_format_json\<close> is given the rows only, never
  the computed column order. For one result that lists \<^verbatim>\<open>b\<close> before \<^verbatim>\<open>a\<close> the
  computed order is \<^verbatim>\<open>a\<close>, \<^verbatim>\<open>b\<close>, while the object is written with \<^verbatim>\<open>b\<close> first.
\<close>

theorem json_field_order_counterexample:
  \<open>sorted_fields results_b_a False = [''a'', ''b'']
   \<and> map fst (row_dict (hd results_b_a)) = [''b'', ''a'']
   \<and> format_results results_b_a ''json'' None False
       = (Inr None, [Stdout ''[\<newline>  {\<newline>    "b": "1",\<newline>    "a": "2"\<newline>  }\<newline>]''])\<close>
  by code_simp

text \<open>
  Claim C5, amended. For results that are not the degenerate case, and that hold no
  field name beginning with \<^verbatim>\<open>@\<close> when \<^verbatim>\<open>exclude_metadata\<close> is set, the JSON text is
  an array with one object per result, in the order of the results; each object holds
  the fields of its own result only, each name once, in the order the result first
  lists them, with the value of the last field of that name (the empty string when it
  has none). The order of the computed columns plays no part. What the JSON text holds
  when \<^verbatim>\<open>exclude_metadata\<close> is set and such fields are present is left out here.
\<close>

theorem json_rows_in_order:
  assumes "results \<noteq> []" and "hd results \<noteq> []"
    and "exclude_metadata \<longrightarrow> (\<forall>f \<in> all_fields results. \<not> startswith f ''@'')"
  shows "format_results results ''json'' output_file exclude_metadata
           = (Inr (fst (emit (json_dumps (map row_dict results)) output_file)),
              snd (emit (json_dumps (map row_dict results)) output_file))
       \<and> json_dumps (map row_dict results)
           = [CHR ''['', CHR 0x0A]
             @ join [CHR '','', CHR 0x0A] (map (\<lambda>r. ''  '' @ json_object (row_dict r)) results)
             @ [CHR 0x0A] @ '']''
       \<and> (\<forall>r \<in> set results.
             map fst (row_dict r) = first_occurrences [] (map fst r)
             \<and> distinct (map fst (row_dict r))
             \<and> (\<forall>f. dict_get (row_dict r) f = cell_text r f))"
proof -
  have "format_results results ''json'' output_file exclude_metadata
          = format_json (map row_dict results) output_file"
    using assms(1,2) by (simp add: format_results_def)
  then have call: "format_results results ''json'' output_file exclude_metadata
          = (Inr (fst (emit (json_dumps (map row_dict results)) output_file)),
             snd (emit (json_dumps (map row_dict results)) output_file))"
    by (simp add: format_json_def split_beta Let_def)
  have array: "json_dumps (map row_dict results)
           = [CHR ''['', CHR 0x0A]
             @ join [CHR '','', CHR 0x0A] (map (\<lambda>r. ''  '' @ json_object (row_dict r)) results)
             @ [CHR 0x0A] @ '']''"
    using assms(1) by (simp add: json_dumps_def comp_def)
  have "distinct (map fst (row_dict r))" for r
    using distinct_dict_fill [of "[]" r] by (simp add: row_dict_fill)
  with call array show ?thesis
    by (simp add: keys_row_dict_order dict_get_row_dict)
qed

theorem json_rows_in_order_witness:
  \<open>results_sparse \<noteq> [] \<and> hd results_sparse \<noteq> []
   \<and> all_fields results_sparse = {''A'', ''B'', ''C''}
   \<and> format_results results_sparse ''json'' (Some ''out.json'') True
       = (Inr (Some ''out.json''),
          [FileWrite ''out.json''
             ''[\<newline>  {\<newline>    "A": "1",\<newline>    "B": "2"\<newline>  },\<newline>  {\<newline>    "B": "3",\<newline>    "C": "4"\<newline>  },\<newline>  {\<newline>    "A": "5"\<newline>  }\<newline>]'',
           Stdout (saved_message ''out.json'')])\<close>
proof -
  have h1: "results_sparse \<noteq> []" and h2: "hd results_sparse \<noteq> []"
    by (simp_all add: results_sparse_def)
  have out: \<open>emit (json_dumps (map row_dict results_sparse)) (Some ''out.json'')
      = (Some ''out.json'',
         [FileWrite ''out.json''
            ''[\<newline>  {\<newline>    "A": "1",\<newline>    "B": "2"\<newline>  },\<newline>  {\<newline>    "B": "3",\<newline>    "C": "4"\<newline>  },\<newline>  {\<newline>    "A": "5"\<newline>  }\<newline>]'',
          Stdout (saved_message ''out.json'')])\<close>
    by code_simp
  have names: "all_fields results_sparse = {''A'', ''B'', ''C''}"
    by (auto simp: all_fields_def results_sparse_def)
  have h3: "True \<longrightarrow> (\<forall>f \<in> all_fields results_sparse. \<not> startswith f ''@'')"
    by (simp add: names)
  from json_rows_in_order [OF h1 h2 h3, of "Some ''out.json''"] h1 h2 names
  show ?thesis by (simp add: out)
qed

text \<open>
  Claim C1. With \<^verbatim>\<open>exclude_metadata\<close> set, the fields whose names begin with \<^verbatim>\<open>@\<close>
  should be left out of every encoding. They are dropped from the computed column order,
  and the table follows it; but \<^verbatim>\<open>_format_json\<close> never receives the column order
  and prints the \<^verbatim>\<open>@timestamp\<close> field with its value, and \<^verbatim>\<open>_format_csv\<close> passes
  the rows with all their keys to a \<^verbatim>\<open>DictWriter\<close> that raises \<^verbatim>\<open>ValueError\<close> on
  a key outside its field names.
\<close>

theorem exclude_metadata_json_csv:
  \<open>sorted_fields results_with_metadata True = [''level'']
   \<and> format_results results_with_metadata ''table'' None True
       = (Inr None, [Stdout ''level\<newline>-----\<newline>INFO ''])
   \<and> format_results results_with_metadata ''json'' None True
       = (Inr None,
          [Stdout ''[\<newline>  {\<newline>    "@timestamp": "t1",\<newline>    "level": "INFO"\<newline>  }\<newline>]''])
   \<and> format_results results_with_metadata ''csv'' None True
       = (Inl (ValueError (''dict contains fields not in fieldnames: ''
                 @ [CHR 0x27] @ ''@timestamp'' @ [CHR 0x27])), [])\<close>
  by code_simp

subsection \<open>wait_for_results\<close>

lemma wait_loop_terminal:
  assumes "list_all still_running pre" and "is_terminal_state (status final)"
  shows "fst (wait_loop st ui lu (pre @ (t, Inr final) # rest))
           = Some (if status final = ''Complete'' then Inr final else Inl (SystemExit 1))
       \<and> filter terminal_update (snd (wait_loop st ui lu (pre @ (t, Inr final) # rest)))
           = [StatusUpdate final (t - st)]"
  using assms
proof (induction pre arbitrary: lu)
  case Nil
  have lits: "is_terminal_state ''Complete''" "is_terminal_state ''Failed''"
    "is_terminal_state ''Cancelled''"
    by (simp_all add: is_terminal_state_def)
  from Nil show ?case by (simp add: Let_def lits)
next
  case (Cons p pre)
  obtain t' r where p: "p = (t', r)" by (cases p)
  with Cons.prems obtain resp where r: "r = Inr resp" and run: "\<not> is_terminal_state (status resp)"
    by (cases r) auto
  from Cons.prems have pre: "list_all still_running pre" by simp
  note IH = Cons.IH [OF pre Cons.prems(2)]
  show ?case
    using run IH by (simp add: p r Let_def split_beta)
qed

text \<open>
  Claim C6. Whatever the service reports while the query is not in a terminal state, and
  whatever the clock readings and the update interval are, the poll that first answers
  with a terminal state ends the loop, and the status update for that response is
  printed, once: it is the only update printed for a terminal response. The loop returns
  that response when its status is \<^verbatim>\<open>Complete\<close> and exits with status 1 otherwise.
\<close>

theorem terminal_update_always_emitted:
  assumes "list_all still_running pre" and "is_terminal_state (status final)"
  shows "fst (wait_for_results st ui (pre @ (t, Inr final) # rest))
           = Some (if status final = ''Complete'' then Inr final else Inl (SystemExit 1))
       \<and> filter terminal_update (snd (wait_for_results st ui (pre @ (t, Inr final) # rest)))
           = [StatusUpdate final (t - st)]"
  using wait_loop_terminal [OF assms, of st ui st t rest]
  by (simp add: wait_for_results_def split_beta)

text \<open>
  The status sequence Running, Running, Complete, polled at 0, 2 and 4 seconds: with an
  interval of 30 seconds the update for the final response is the only one; with an
  interval of 2 seconds it follows the one update that the interval lets through.
\<close>

theorem terminal_update_always_emitted_witness:
  "wait_for_results 0 30
       [(0, Inr response_running), (2, Inr response_running), (4, Inr response_complete)]
     = (Some (Inr response_complete),
        [Stdout ''Waiting for query to complete...'', StatusUpdate response_complete 4])
   \<and> wait_for_results 0 2
       [(0, Inr response_running), (2, Inr response_running), (4, Inr response_complete)]
     = (Some (Inr response_complete),
        [Stdout ''Waiting for query to complete...'', StatusUpdate response_running 2,
         StatusUpdate response_complete 4])"
proof -
  have running: "list_all still_running [(0, Inr response_running), (2, Inr response_running)]"
    by (simp add: response_running_def is_terminal_state_def)
  have complete: "is_terminal_state (status response_complete)"
    by (simp add: response_complete_def is_terminal_state_def)
  have st: "status response_complete = ''Complete''"
    by (simp add: response_complete_def)
  have not_terminal: "\<not> is_terminal_state (status response_running)"
    by (simp add: response_running_def is_terminal_state_def)
  have quiet: "snd (wait_for_results 0 30
       [(0, Inr response_running), (2, Inr response_running), (4, Inr response_complete)])
     = [Stdout ''Waiting for query to complete...'', StatusUpdate response_complete 4]"
    by (simp add: wait_for_results_def Let_def complete [unfolded st] st not_terminal)
  have gated: "snd (wait_for_results 0 2
       [(0, Inr response_running), (2, Inr response_running), (4, Inr response_complete)])
     = [Stdout ''Waiting for query to complete...'', StatusUpdate response_running 2,
        StatusUpdate response_complete 4]"
    by (simp add: wait_for_results_def Let_def complete [unfolded st] st not_terminal)
  from terminal_update_always_emitted [OF running complete, of 0 30 4 "[]"]
       terminal_update_always_emitted [OF running complete, of 0 2 4 "[]"]
  show ?thesis
    by (simp add: quiet gated st prod_eq_iff)
qed

subsection \<open>parse_time and execute_query\<close>

lemma str_contains_start_before_end:
  "str_contains (start_before_end start_time s end_time e) (str_int s)"
  "str_contains (start_before_end start_time s end_time e) (str_int e)"
proof -
  have "start_before_end start_time s end_time e
      = (''Start time must be before end time'' @ [CHR 0x0A] @ ''Start: '' @ start_time @ '' ('')
        @ str_int s @ ('')'' @ [CHR 0x0A] @ ''End: '' @ end_time @ '' ('' @ str_int e @ '')'')"
    by (simp add: start_before_end_def)
  then show "str_contains (start_before_end start_time s end_time e) (str_int s)"
    by (simp only: str_contains_append)
  have "start_before_end start_time s end_time e
      = (''Start time must be before end time'' @ [CHR 0x0A] @ ''Start: '' @ start_time @ '' (''
         @ str_int s @ '')'' @ [CHR 0x0A] @ ''End: '' @ end_time @ '' ('')
        @ str_int e @ '')''"
    by (simp add: start_before_end_def)
  then show "str_contains (start_before_end start_time s end_time e) (str_int e)"
    by (simp only: str_contains_append)
qed

text \<open>
  Claim C9. When both time expressions resolve and the start is not before the end,
  \<^verbatim>\<open>execute_query\<close> raises \<^verbatim>\<open>QuerySyntaxError\<close> with a message that holds both
  resolved values; the call has no events: no log group is looked up, nothing is
  printed and \<^verbatim>\<open>start_query\<close> is not called.
\<close>

theorem start_not_before_end_rejected:
  assumes "parse_time utcoffset now_start start_time = Inr start_ms"
    and "parse_time utcoffset now_end end_time = Inr end_ms"
    and "start_ms \<ge> end_ms"
  shows "execute_query utcoffset now_start now_end c query log_groups start_time end_time limit
           = (Inl (QuerySyntaxError (start_before_end start_time start_ms end_time end_ms)), [])
       \<and> str_contains (start_before_end start_time start_ms end_time end_ms) (str_int start_ms)
       \<and> str_contains (start_before_end start_time start_ms end_time end_ms) (str_int end_ms)"
  using assms by (simp add: execute_query_def str_contains_start_before_end)

theorem start_not_before_end_rejected_witness:
  "parse_time 0 0 ''1733395200000'' = Inr 1733395200000
   \<and> execute_query 0 0 0 catalog_single ''fields @message'' [''/aws/lambda/a'']
        ''1733395200000'' ''1733395200000'' 10000
     = (Inl (QuerySyntaxError
          (''Start time must be before end time'' @ [CHR 0x0A]
           @ ''Start: 1733395200000 (1733395200000)'' @ [CHR 0x0A]
           @ ''End: 1733395200000 (1733395200000)'')), [])"
proof -
  have p: "parse_time 0 0 ''1733395200000'' = Inr 1733395200000"
    by code_simp
  have m: "start_before_end ''1733395200000'' 1733395200000 ''1733395200000'' 1733395200000
      = ''Start time must be before end time'' @ [CHR 0x0A]
        @ ''Start: 1733395200000 (1733395200000)'' @ [CHR 0x0A]
        @ ''End: 1733395200000 (1733395200000)''"
    by code_simp
  from start_not_before_end_rejected [OF p p, of catalog_single "''fields @message''"
         "[''/aws/lambda/a'']" 10000] p
  show ?thesis by (simp add: m)
qed

text \<open>
  Claim C10. \<^verbatim>\<open>parse_time\<close> should end, for every string, with a timestamp or with the
  \<^verbatim>\<open>ValueError\<close> that names the supported formats. For the empty string, and for a
  string of white space, which \<^verbatim>\<open>strip\<close> empties, \<^verbatim>\<open>time_str[-1]\<close> raises
  \<^verbatim>\<open>IndexError\<close>; \<^verbatim>\<open>execute_query\<close>, which turns only \<^verbatim>\<open>ValueError\<close> into
  \<^verbatim>\<open>QuerySyntaxError\<close>, lets it through.
\<close>

theorem parse_time_empty_string:
  "parse_time utcoffset now '''' = Inl IndexError
   \<and> parse_time utcoffset now ''   '' = Inl IndexError
   \<and> execute_query utcoffset now_start now_end c query log_groups '''' end_time limit
       = (Inl IndexError, [])"
proof -
  have e: "parse_time utcoffset now '''' = Inl IndexError" for now
    by (simp add: parse_time_def strip_def lower_def named_ranges_def)
  have "strip ''   '' = []"
    by (simp add: strip_def py_isspace_def)
  then have "parse_time utcoffset now ''   '' = Inl IndexError"
    by (simp add: parse_time_def lower_def named_ranges_def)
  with e show ?thesis
    by (simp add: execute_query_def)
qed

text \<open>
  Claim C2. A timestamp without a time zone should be taken as UTC, so that
  \<^verbatim>\<open>2025-12-05T10:00:00\<close> and \<^verbatim>\<open>2025-12-05T10:00:00Z\<close> resolve to the same value in
  every local time zone. \<^verbatim>\<open>fromisoformat\<close> accepts the first as a naive datetime, and
  \<^verbatim>\<open>timestamp()\<close> reads a naive datetime as local time: one hour east of UTC the two
  differ by an hour. The \<^verbatim>\<open>strptime\<close> branch, which the code comments with
  ``assume UTC'', reads its result as local time in the same way
  (\<^verbatim>\<open>2025-12-5T10:00:00\<close> reaches it).
\<close>

theorem naive_timestamp_is_local:
  "parse_time 3600 now ''2025-12-05T10:00:00Z'' = Inr 1764928800000
   \<and> parse_time 3600 now ''2025-12-05T10:00:00'' = Inr 1764925200000
   \<and> parse_time 3600 now ''2025-12-5T10:00:00'' = Inr 1764925200000
   \<and> parse_time 0 now ''2025-12-05T10:00:00'' = Inr 1764928800000"
  by code_simp

end
